theory Spec2Isabelle
  imports Complex_Main "HOL-Library.Multiset"
begin

section \<open>Data model (listings/models.py)\<close>

text \<open>
  Users are identified by their primary key. \<open>request.user\<close> is either Django's
  \<open>AnonymousUser\<close> or an authenticated user. Dates are calendar dates, kept as the
  day number (\<open>date.toordinal()\<close>); Python compares dates by that number. Decimal
  amounts are exact rationals. Primary keys are \<open>uuid4\<close> values in the source;
  here they are natural numbers, and a fresh one is an argument of every creation.
\<close>

type_synonym user_id = nat
type_synonym date = int

datatype actor = AnonymousUser | User user_id


text \<open>
  \<open>class Listing\<close>. The descriptive columns (title, description, property_type,
  location, country, city, bedrooms, bathrooms, amenities, timestamps) are read by no
  function modelled below and are left out.
\<close>

record listing =
  listing_id :: nat
  host :: user_id
  max_guests :: int
  price_per_night :: rat
  listing_is_active :: bool

text \<open>\<open>class Review\<close>; \<open>listing\<close> is the foreign key, held as the listing row.\<close>

record review =
  review_id :: nat
  review_listing :: listing
  reviewer :: user_id
  rating :: int
  comment :: string
  review_is_active :: bool

text \<open>\<open>class BookingStatus(models.TextChoices)\<close>.\<close>

datatype booking_status = PENDING | CONFIRMED | CANCELLED | COMPLETED

text \<open>\<open>class Booking\<close>.\<close>

record booking =
  booking_id :: nat
  listing :: listing
  guest :: user_id
  check_in_date :: date
  check_out_date :: date
  num_guests :: int
  total_price :: rat
  status :: booking_status
  special_requests :: string

text \<open>The tables of the database: the rows of each model, newest last.\<close>

record store =
  listings :: "listing list"
  reviews :: "review list"
  bookings :: "booking list"

section \<open>Validation errors\<close>

text \<open>
  One constructor for each message a validator of the repository can raise:
  \<^item> \<open>Required\<close>: a required field is absent (``This field is required.'');
  \<^item> \<open>DoesNotExist pk\<close>: a primary key names no row
    (``Invalid pk ... - object does not exist.'');
  \<^item> \<open>MinValue n\<close>, \<open>MaxValue n\<close>: \<open>MinValueValidator(n)\<close>,
    \<open>MaxValueValidator(n)\<close> declared on a model column;
  \<^item> \<open>CheckOutNotAfterCheckIn\<close>: ``Check-out date must be after check-in date.'';
  \<^item> \<open>GuestsExceedCapacity n m\<close>:
    ``Number of guests (n) exceeds maximum capacity (m).'';
  \<^item> \<open>GuestsNotPositive\<close>: ``Number of guests must be greater than 0.'';
  \<^item> \<open>PriceNotPositive\<close>: ``Total price must be greater than 0.'';
  \<^item> \<open>RatingOutOfRange\<close>: ``Rating must be between 1 and 5.''.
\<close>

datatype validation_error =
    Required
  | DoesNotExist nat
  | MinValue int
  | MaxValue int
  | CheckOutNotAfterCheckIn
  | GuestsExceedCapacity int int
  | GuestsNotPositive
  | PriceNotPositive
  | RatingOutOfRange

text \<open>
  \<open>serializers.ValidationError(msg).detail\<close> is the one-element list \<open>[msg]\<close>;
  the errors of a serializer are a dictionary from field name to such a list, in field
  order, with the errors of \<open>validate\<close> under \<open>non_field_errors\<close>.
\<close>

type_synonym error_dict = "(string \<times> validation_error list) list"

section \<open>BookingSerializer (listings/serializers.py)\<close>

text \<open>
  The dictionary \<open>data\<close> handed to \<open>BookingSerializer.validate\<close>: one entry
  for each writable field of \<open>Meta.fields\<close>. Field \<open>get_k\<close> is
  \<open>data.get('k')\<close>, \<open>None\<close> when the key is absent.
\<close>

record booking_data =
  get_listing :: "listing option"
  get_check_in_date :: "date option"
  get_check_out_date :: "date option"
  get_num_guests :: "int option"
  get_total_price :: "rat option"
  get_status :: "booking_status option"
  get_special_requests :: "string option"

text \<open>
  Python truth values, as the conditions of \<open>validate\<close> use them: \<open>None\<close> is
  false, a date and a model instance are true, an integer is true unless it is 0.
\<close>

fun truthy_obj :: "'a option \<Rightarrow> bool" where
  "truthy_obj None = False"
| "truthy_obj (Some x) = True"

fun truthy_int :: "int option \<Rightarrow> bool" where
  "truthy_int None = False"
| "truthy_int (Some n) = (n \<noteq> 0)"

text \<open>
  \<open>BookingSerializer.validate\<close>: the two guarded checks in the order of the source,
  each raising at once; \<open>return data\<close> otherwise.
\<close>

definition validate :: "booking_data \<Rightarrow> validation_error list + booking_data" where
  "validate data =
     (let check_in_date = get_check_in_date data;
          check_out_date = get_check_out_date data;
          num_guests = get_num_guests data;
          listing = get_listing data
      in if truthy_obj check_in_date \<and> truthy_obj check_out_date
            \<and> the check_in_date \<ge> the check_out_date
         then Inl [CheckOutNotAfterCheckIn]
         else if truthy_obj listing \<and> truthy_int num_guests
                 \<and> the num_guests > max_guests (the listing)
         then Inl [GuestsExceedCapacity (the num_guests) (max_guests (the listing))]
         else Inr data)"

text \<open>\<open>BookingSerializer.validate_num_guests\<close> and \<open>validate_total_price\<close>.\<close>

definition validate_num_guests :: "int \<Rightarrow> validation_error list + int" where
  "validate_num_guests value = (if value \<le> 0 then Inl [GuestsNotPositive] else Inr value)"

definition validate_total_price :: "rat \<Rightarrow> validation_error list + rat" where
  "validate_total_price value = (if value \<le> 0 then Inl [PriceNotPositive] else Inr value)"


subsection \<open>The serializer's validation pipeline\<close>

text \<open>
  The body of a \<open>POST /bookings/\<close> request after its primitive values have been
  parsed: the listing is named by primary key, and every key may be absent.
\<close>

record booking_request =
  req_listing :: "nat option"
  req_check_in_date :: "date option"
  req_check_out_date :: "date option"
  req_num_guests :: "int option"
  req_total_price :: "rat option"
  req_status :: "booking_status option"
  req_special_requests :: "string option"

text \<open>
  Each writable field of \<open>BookingSerializer.Meta.fields\<close>, as the model serializer
  derives it from the column in \<open>class Booking\<close>: a column with no default is
  required; the foreign key is looked up among all rows of \<open>Listing\<close>;
  \<open>MinValueValidator(1)\<close> on \<open>num_guests\<close> and \<open>MinValueValidator(0)\<close> on
  \<open>total_price\<close> run before the serializer's own \<open>validate_<field>\<close> method,
  which is skipped when the column's validator has already failed.
\<close>

definition field_listing :: "store \<Rightarrow> nat option \<Rightarrow> validation_error list + listing" where
  "field_listing s v =
     (case v of
        None \<Rightarrow> Inl [Required]
      | Some pk \<Rightarrow>
          (case find (\<lambda>l. listing_id l = pk) (listings s) of
             None \<Rightarrow> Inl [DoesNotExist pk]
           | Some l \<Rightarrow> Inr l))"

definition field_date :: "date option \<Rightarrow> validation_error list + date" where
  "field_date v = (case v of None \<Rightarrow> Inl [Required] | Some d \<Rightarrow> Inr d)"

definition field_num_guests :: "int option \<Rightarrow> validation_error list + int" where
  "field_num_guests v =
     (case v of
        None \<Rightarrow> Inl [Required]
      | Some n \<Rightarrow> if n < 1 then Inl [MinValue 1] else validate_num_guests n)"

definition field_total_price :: "rat option \<Rightarrow> validation_error list + rat" where
  "field_total_price v =
     (case v of
        None \<Rightarrow> Inl [Required]
      | Some p \<Rightarrow> if p < 0 then Inl [MinValue 0] else validate_total_price p)"

text \<open>The entry a field adds to the error dictionary.\<close>

definition field_errors :: "string \<Rightarrow> validation_error list + 'a \<Rightarrow> error_dict" where
  "field_errors name r = (case r of Inl e \<Rightarrow> [(name, e)] | Inr x \<Rightarrow> [])"

text \<open>
  \<open>Serializer.to_internal_value\<close>: every field is run, in the order of
  \<open>Meta.fields\<close>, and the errors of all of them are collected; the validated
  dictionary is built only when there is none. \<open>status\<close> and
  \<open>special_requests\<close> are optional and enter the dictionary only when given.
\<close>

definition to_internal_value :: "store \<Rightarrow> booking_request \<Rightarrow> error_dict + booking_data" where
  "to_internal_value s req =
     (let l = field_listing s (req_listing req);
          ci = field_date (req_check_in_date req);
          co = field_date (req_check_out_date req);
          n = field_num_guests (req_num_guests req);
          p = field_total_price (req_total_price req);
          errors = field_errors ''listing'' l @ field_errors ''check_in_date'' ci
                 @ field_errors ''check_out_date'' co @ field_errors ''num_guests'' n
                 @ field_errors ''total_price'' p
      in if errors \<noteq> [] then Inl errors
         else Inr \<lparr>get_listing = Some (projr l), get_check_in_date = Some (projr ci),
                   get_check_out_date = Some (projr co), get_num_guests = Some (projr n),
                   get_total_price = Some (projr p), get_status = req_status req,
                   get_special_requests = req_special_requests req\<rparr>)"

text \<open>
  \<open>Serializer.run_validation\<close>: \<open>to_internal_value\<close>, then \<open>validate\<close> on its
  result; the errors of \<open>validate\<close> are filed under \<open>non_field_errors\<close>.
\<close>

definition run_validation :: "store \<Rightarrow> booking_request \<Rightarrow> error_dict + booking_data" where
  "run_validation s req =
     (case to_internal_value s req of
        Inl errors \<Rightarrow> Inl errors
      | Inr data \<Rightarrow>
          (case validate data of
             Inl e \<Rightarrow> Inl [(''non_field_errors'', e)]
           | Inr data' \<Rightarrow> Inr data'))"

section \<open>BookingViewSet (listings/views.py)\<close>

datatype api_error =
    NotAuthenticated
  | PermissionDenied
  | NotFound
  | BadRequest error_dict

text \<open>
  \<open>BookingViewSet.perform_create\<close>: \<open>serializer.save(guest=self.request.user)\<close>
  builds the row from the validated dictionary and the guest. A column absent from the
  dictionary takes its default in \<open>class Booking\<close>:
  \<open>BookingStatus.PENDING\<close> for \<open>status\<close>, the empty text for
  \<open>special_requests\<close>.
\<close>

definition perform_create :: "nat \<Rightarrow> user_id \<Rightarrow> booking_data \<Rightarrow> booking" where
  "perform_create new_id user data =
     \<lparr>booking_id = new_id,
      listing = the (get_listing data),
      guest = user,
      check_in_date = the (get_check_in_date data),
      check_out_date = the (get_check_out_date data),
      num_guests = the (get_num_guests data),
      total_price = the (get_total_price data),
      status = (case get_status data of None \<Rightarrow> PENDING | Some st \<Rightarrow> st),
      special_requests = (case get_special_requests data of None \<Rightarrow> [] | Some t \<Rightarrow> t)\<rparr>"

text \<open>
  \<open>POST /bookings/\<close>: \<open>permission_classes = [IsAuthenticated, IsBookingGuestOrHost]\<close>
  (both ask only for an authenticated user at this point), then
  \<open>serializer.is_valid(raise_exception=True)\<close>, then \<open>perform_create\<close>. The result
  is the new row and the store holding it.
\<close>

definition create_booking ::
  "store \<Rightarrow> actor \<Rightarrow> nat \<Rightarrow> booking_request \<Rightarrow> api_error + (booking \<times> store)" where
  "create_booking s a new_id req =
     (case a of
        AnonymousUser \<Rightarrow> Inl NotAuthenticated
      | User u \<Rightarrow>
          (case run_validation s req of
             Inl errors \<Rightarrow> Inl (BadRequest errors)
           | Inr data \<Rightarrow>
               (let b = perform_create new_id u data
                in Inr (b, s\<lparr>bookings := bookings s @ [b]\<rparr>))))"


section \<open>Listing.average_rating and Listing.review_count (listings/models.py)\<close>

text \<open>
  \<open>self.reviews\<close>, the reverse of the foreign key \<open>Review.listing\<close>: the review
  rows whose listing has the primary key of \<open>self\<close>.
\<close>

definition listing_reviews :: "store \<Rightarrow> listing \<Rightarrow> review list" where
  "listing_reviews s self =
     filter (\<lambda>r. listing_id (review_listing r) = listing_id self) (reviews s)"

text \<open>
  \<open>models.Avg\<close> over an integer column: SQL's \<open>AVG\<close>, which is \<open>NULL\<close>
  (Python's \<open>None\<close>) over no rows and the mean otherwise. The mean is kept exact.
\<close>

definition Avg :: "int list \<Rightarrow> rat option" where
  "Avg xs = (if xs = [] then None else Some (of_int (sum_list xs) / of_int (int (length xs))))"

text \<open>The truth value of \<open>ratings['avg_rating']\<close>: false for \<open>None\<close> and for 0.\<close>

fun truthy_num :: "rat option \<Rightarrow> bool" where
  "truthy_num None = False"
| "truthy_num (Some x) = (x \<noteq> 0)"

text \<open>
  \<open>Listing.average_rating\<close>. Python's built-in \<open>round(x, 2)\<close> works on the binary
  floating-point value of the mean; it is the argument \<open>round2\<close>, applied exactly
  where the source applies it.
\<close>

definition average_rating :: "(rat \<Rightarrow> rat) \<Rightarrow> store \<Rightarrow> listing \<Rightarrow> rat" where
  "average_rating round2 s self =
     (let avg_rating = Avg (map rating (filter review_is_active (listing_reviews s self)))
      in if truthy_num avg_rating then round2 (the avg_rating) else 0)"

definition review_count :: "store \<Rightarrow> listing \<Rightarrow> nat" where
  "review_count s self = length (filter review_is_active (listing_reviews s self))"

text \<open>
  The rating summary of a listing: the two read-only fields \<open>average_rating\<close> and
  \<open>review_count\<close> that \<open>ListingSerializer\<close> publishes.
\<close>

definition rating_summary :: "(rat \<Rightarrow> rat) \<Rightarrow> store \<Rightarrow> listing \<Rightarrow> rat \<times> nat" where
  "rating_summary round2 s self = (average_rating round2 s self, review_count s self)"

section \<open>BookingAdmin actions (listings/admin.py)\<close>




section \<open>Permissions (listings/permissions.py) and ReviewViewSet\<close>

datatype http_method = GET | HEAD | OPTIONS | POST | PUT | PATCH | DELETE









section \<open>Concrete stores and requests\<close>

text \<open>
  The scenario of the specification: listing L with capacity 4, active, and a first
  booking from 2025-06-01 to 2025-06-05 (day numbers 739403 and 739407), Pending.
\<close>

definition scenario_listing :: listing where
  "scenario_listing =
     \<lparr>listing_id = 1, host = 10, max_guests = 4, price_per_night = 100,
      listing_is_active = True\<rparr>"

definition first_booking :: booking where
  "first_booking =
     \<lparr>booking_id = 1, listing = scenario_listing, guest = 20,
      check_in_date = 739403, check_out_date = 739407, num_guests = 2,
      total_price = 400, status = PENDING, special_requests = []\<rparr>"

definition scenario_store :: store where
  "scenario_store =
     \<lparr>listings = [scenario_listing], reviews = [], bookings = [first_booking]\<rparr>"




text \<open>A request that supplies a status of its own.\<close>

definition confirmed_request :: booking_request where
  "confirmed_request =
     \<lparr>req_listing = Some 1, req_check_in_date = Some 739410,
      req_check_out_date = Some 739412, req_num_guests = Some 2,
      req_total_price = Some 200, req_status = Some CONFIRMED, req_special_requests = None\<rparr>"

text \<open>A store whose only listing is inactive, and a request on that listing.\<close>

definition inactive_listing :: listing where
  "inactive_listing =
     \<lparr>listing_id = 2, host = 11, max_guests = 2, price_per_night = 80,
      listing_is_active = False\<rparr>"

definition inactive_store :: store where
  "inactive_store = \<lparr>listings = [inactive_listing], reviews = [], bookings = []\<rparr>"

definition inactive_listing_request :: booking_request where
  "inactive_listing_request =
     \<lparr>req_listing = Some 2, req_check_in_date = Some 739403,
      req_check_out_date = Some 739405, req_num_guests = Some 2,
      req_total_price = Some 160, req_status = None, req_special_requests = None\<rparr>"

text \<open>A request that names no listing of the scenario, with no guest and a reversed
  date range.\<close>

definition missing_listing_request :: booking_request where
  "missing_listing_request =
     \<lparr>req_listing = Some 9, req_check_in_date = Some 739405,
      req_check_out_date = Some 739403, req_num_guests = Some 0,
      req_total_price = Some 160, req_status = None, req_special_requests = None\<rparr>"





text \<open>
  Reviews: three active reviews of the scenario's listing (ratings 5, 4, 4), one
  inactive review of it, and one active review of another listing.
\<close>

definition other_listing :: listing where
  "other_listing =
     \<lparr>listing_id = 3, host = 12, max_guests = 6, price_per_night = 150,
      listing_is_active = True\<rparr>"

definition review_a :: review where
  "review_a = \<lparr>review_id = 1, review_listing = scenario_listing, reviewer = 20,
               rating = 5, comment = ''Great'', review_is_active = True\<rparr>"

definition review_b :: review where
  "review_b = \<lparr>review_id = 2, review_listing = scenario_listing, reviewer = 21,
               rating = 4, comment = [], review_is_active = True\<rparr>"

definition review_c :: review where
  "review_c = \<lparr>review_id = 3, review_listing = scenario_listing, reviewer = 22,
               rating = 4, comment = [], review_is_active = True\<rparr>"

definition review_inactive :: review where
  "review_inactive = \<lparr>review_id = 4, review_listing = scenario_listing, reviewer = 23,
               rating = 1, comment = [], review_is_active = False\<rparr>"

definition review_other :: review where
  "review_other = \<lparr>review_id = 5, review_listing = other_listing, reviewer = 20,
               rating = 2, comment = [], review_is_active = True\<rparr>"

definition review_store :: store where
  "review_store =
     \<lparr>listings = [scenario_listing, other_listing],
      reviews = [review_a, review_inactive, review_b, review_other, review_c],
      bookings = []\<rparr>"

text \<open>The same reviews, created in another order.\<close>

definition review_store_reordered :: store where
  "review_store_reordered =
     \<lparr>listings = [scenario_listing, other_listing],
      reviews = [review_c, review_other, review_a, review_b, review_inactive],
      bookings = []\<rparr>"

text \<open>Rounding to two places, half up, on exact rationals: one function that can stand
  for \<open>round2\<close>.\<close>

definition round_half_up2 :: "rat \<Rightarrow> rat" where
  "round_half_up2 x = of_int \<lfloor>x * 100 + 1 / 2\<rfloor> / 100"

section \<open>Booking creation: what the validation reads\<close>

lemmas booking_pipeline_defs =
  create_booking_def run_validation_def to_internal_value_def field_listing_def
  field_date_def field_num_guests_def field_total_price_def field_errors_def
  validate_def validate_num_guests_def validate_total_price_def perform_create_def






section \<open>Booking creation: the status of the new booking\<close>

lemma validate_Inr: "validate d = Inr d' \<Longrightarrow> d' = d"
  by (auto simp: validate_def Let_def split: if_splits)

lemma to_internal_value_status:
  "to_internal_value s req = Inr d \<Longrightarrow> get_status d = req_status req"
  by (auto simp: to_internal_value_def Let_def split: if_splits)

lemma run_validation_status:
  "run_validation s req = Inr d \<Longrightarrow> get_status d = req_status req"
  by (auto simp: run_validation_def split: sum.splits dest: validate_Inr to_internal_value_status)

text \<open>
  C3, as amended. \<open>status\<close> is a writable field of \<open>BookingSerializer\<close>: an
  accepted request creates the booking with the status it supplies, and with the
  column's default, Pending, when it supplies none.
\<close>

theorem created_booking_status:
  assumes "create_booking s a new_id req = Inr (b, s')"
  shows "status b = (case req_status req of None \<Rightarrow> PENDING | Some st \<Rightarrow> st)"
  using assms
  by (auto simp: create_booking_def perform_create_def Let_def
      split: actor.splits sum.splits dest!: run_validation_status)

text \<open>The first request of the scenario, on the empty store: created Pending.\<close>

theorem created_booking_status_witness:
  "create_booking (scenario_store\<lparr>bookings := []\<rparr>) (User 20) 1
     \<lparr>req_listing = Some 1, req_check_in_date = Some 739403,
      req_check_out_date = Some 739407, req_num_guests = Some 2,
      req_total_price = Some 400, req_status = None, req_special_requests = None\<rparr>
   = Inr (first_booking, scenario_store)
   \<and> status first_booking = PENDING"
proof -
  have c: "create_booking (scenario_store\<lparr>bookings := []\<rparr>) (User 20) 1
     \<lparr>req_listing = Some 1, req_check_in_date = Some 739403,
      req_check_out_date = Some 739407, req_num_guests = Some 2,
      req_total_price = Some 400, req_status = None, req_special_requests = None\<rparr>
   = Inr (first_booking, scenario_store)"
    by (simp add: booking_pipeline_defs Let_def scenario_store_def scenario_listing_def
        first_booking_def)
  from created_booking_status [OF c] show ?thesis using c by simp
qed

text \<open>
  C3 as stated fails: a request that supplies \<open>status = confirmed\<close> is accepted and
  its booking is created Confirmed.
\<close>

theorem booking_created_confirmed:
  "req_status confirmed_request = Some CONFIRMED
   \<and> create_booking scenario_store (User 21) 2 confirmed_request
     = Inr (\<lparr>booking_id = 2, listing = scenario_listing, guest = 21,
             check_in_date = 739410, check_out_date = 739412, num_guests = 2,
             total_price = 200, status = CONFIRMED, special_requests = []\<rparr>,
            scenario_store\<lparr>bookings := [first_booking,
              \<lparr>booking_id = 2, listing = scenario_listing, guest = 21,
               check_in_date = 739410, check_out_date = 739412, num_guests = 2,
               total_price = 200, status = CONFIRMED, special_requests = []\<rparr>]\<rparr>)"
  by (simp add: booking_pipeline_defs Let_def scenario_store_def scenario_listing_def
      first_booking_def confirmed_request_def)

section \<open>Booking creation: the listing's active flag and a missing listing\<close>

lemma find_listing_flags:
  "find (\<lambda>l. listing_id l = pk) (map (\<lambda>l. l\<lparr>listing_is_active := f l\<rparr>) ls)
   = map_option (\<lambda>l. l\<lparr>listing_is_active := f l\<rparr>) (find (\<lambda>l. listing_id l = pk) ls)"
  by (induction ls) auto

lemma field_listing_flags:
  "field_listing (s\<lparr>listings := map (\<lambda>l. l\<lparr>listing_is_active := f l\<rparr>) (listings s)\<rparr>) v
   = map_sum id (\<lambda>l. l\<lparr>listing_is_active := f l\<rparr>) (field_listing s v)"
  by (simp add: field_listing_def find_listing_flags split: option.splits)

lemma to_internal_value_flags:
  "to_internal_value (s\<lparr>listings := map (\<lambda>l. l\<lparr>listing_is_active := f l\<rparr>) (listings s)\<rparr>) req
   = map_sum id
       (\<lambda>d. d\<lparr>get_listing := map_option (\<lambda>l. l\<lparr>listing_is_active := f l\<rparr>) (get_listing d)\<rparr>)
       (to_internal_value s req)"
  unfolding to_internal_value_def field_listing_flags Let_def
  by (cases "field_listing s (req_listing req)") (simp_all add: field_errors_def)

lemma validate_flags:
  "validate (d\<lparr>get_listing := map_option (\<lambda>l. l\<lparr>listing_is_active := f l\<rparr>) (get_listing d)\<rparr>)
   = map_sum id
       (\<lambda>d. d\<lparr>get_listing := map_option (\<lambda>l. l\<lparr>listing_is_active := f l\<rparr>) (get_listing d)\<rparr>)
       (validate d)"
  by (cases "get_listing d") (simp_all add: validate_def Let_def)

lemma run_validation_flags:
  "run_validation (s\<lparr>listings := map (\<lambda>l. l\<lparr>listing_is_active := f l\<rparr>) (listings s)\<rparr>) req
     = map_sum id
         (\<lambda>d. d\<lparr>get_listing := map_option (\<lambda>l. l\<lparr>listing_is_active := f l\<rparr>) (get_listing d)\<rparr>)
         (run_validation s req)"
  unfolding run_validation_def to_internal_value_flags
  by (cases "to_internal_value s req") (simp_all add: validate_flags split: sum.splits)

lemma field_errors_keys: "k \<noteq> name \<Longrightarrow> k \<notin> fst ` set (field_errors name r)"
  by (cases r) (simp_all add: field_errors_def)

lemma run_validation_missing_listing:
  assumes "req_listing req = Some pk" and "find (\<lambda>l. listing_id l = pk) (listings s) = None"
  shows "\<exists>rest. run_validation s req = Inl ((''listing'', [DoesNotExist pk]) # rest)
            \<and> ''non_field_errors'' \<notin> set (map fst rest)"
proof -
  have l: "field_errors ''listing'' (field_listing s (req_listing req))
           = [(''listing'', [DoesNotExist pk])]"
    using assms by (simp add: field_listing_def field_errors_def)
  show ?thesis
    unfolding run_validation_def to_internal_value_def Let_def l
    by (simp add: field_errors_keys image_Un)
qed

text \<open>
  C4, as amended. Validation never reads the listing's active flag: whatever flags
  \<open>f\<close> gives the listings, the verdict and the errors are those of the store as it
  is, and an accepted request carries the listing with its flag. A request that names a
  missing listing is rejected with the does-not-exist error of the field
  \<open>listing\<close>, first in the error dictionary, and nothing is filed under
  \<open>non_field_errors\<close>: the date and capacity checks of \<open>validate\<close> were not run.
\<close>

theorem validation_ignores_active_flag:
  "run_validation (s\<lparr>listings := map (\<lambda>l. l\<lparr>listing_is_active := f l\<rparr>) (listings s)\<rparr>) req
     = map_sum id
         (\<lambda>d. d\<lparr>get_listing := map_option (\<lambda>l. l\<lparr>listing_is_active := f l\<rparr>) (get_listing d)\<rparr>)
         (run_validation s req)
   \<and> (req_listing req = Some pk \<and> find (\<lambda>l. listing_id l = pk) (listings s) = None \<longrightarrow>
        (\<exists>rest. run_validation s req = Inl ((''listing'', [DoesNotExist pk]) # rest)
            \<and> ''non_field_errors'' \<notin> set (map fst rest)))"
  using run_validation_flags run_validation_missing_listing by blast

text \<open>A request on the scenario's store that names listing 9, which does not exist.\<close>

theorem missing_listing_witness:
  "req_listing missing_listing_request = Some 9
   \<and> find (\<lambda>l. listing_id l = 9) (listings scenario_store) = None
   \<and> (\<exists>rest. run_validation scenario_store missing_listing_request
                = Inl ((''listing'', [DoesNotExist 9]) # rest)
            \<and> ''non_field_errors'' \<notin> set (map fst rest))"
proof -
  have a: "req_listing missing_listing_request = Some 9"
    by (simp add: missing_listing_request_def)
  have b: "find (\<lambda>l. listing_id l = 9) (listings scenario_store) = None"
    by (simp add: scenario_store_def scenario_listing_def)
  from validation_ignores_active_flag
         [where s = scenario_store and req = missing_listing_request and pk = 9] a b
  show ?thesis by blast
qed

text \<open>
  C4 as stated fails: a request that names an existing listing with
  \<open>is_active = False\<close> is accepted.
\<close>

theorem inactive_listing_booking_accepted:
  "\<not> listing_is_active inactive_listing
   \<and> create_booking inactive_store (User 21) 1 inactive_listing_request
     = Inr (\<lparr>booking_id = 1, listing = inactive_listing, guest = 21,
             check_in_date = 739403, check_out_date = 739405, num_guests = 2,
             total_price = 160, status = PENDING, special_requests = []\<rparr>,
            inactive_store\<lparr>bookings :=
              [\<lparr>booking_id = 1, listing = inactive_listing, guest = 21,
               check_in_date = 739403, check_out_date = 739405, num_guests = 2,
               total_price = 160, status = PENDING, special_requests = []\<rparr>]\<rparr>)"
  by (simp add: booking_pipeline_defs Let_def inactive_store_def inactive_listing_def
      inactive_listing_request_def)

section \<open>Booking creation: which errors a rejection reports\<close>





section \<open>Booking creation: the guest count\<close>







section \<open>Booking creation: the host as guest\<close>



section \<open>The administrator's status actions\<close>





section \<open>The rating summary\<close>




lemma Avg_mset: "mset xs = mset ys \<Longrightarrow> Avg xs = Avg ys"
proof -
  assume m: "mset xs = mset ys"
  then have "sum_list xs = sum_list ys"
    by (metis sum_mset_sum_list)
  moreover from m have "length xs = length ys"
    by (metis size_mset)
  moreover from m have "(xs = []) = (ys = [])"
    by (metis mset_zero_iff)
  ultimately show ?thesis by (simp add: Avg_def)
qed

lemma active_ratings_mset:
  assumes "mset (reviews s) = mset (reviews s')"
  shows "mset (map rating (filter review_is_active (listing_reviews s l)))
         = mset (map rating (filter review_is_active (listing_reviews s' l)))"
  using assms by (simp add: listing_reviews_def)

text \<open>
  C7. Two stores whose review rows are the same up to order give every listing the same
  rating summary, whatever the rounding function.
\<close>

theorem rating_summary_order_invariant:
  assumes "mset (reviews s) = mset (reviews s')"
  shows "rating_summary round2 s l = rating_summary round2 s' l"
proof -
  have "Avg (map rating (filter review_is_active (listing_reviews s l)))
        = Avg (map rating (filter review_is_active (listing_reviews s' l)))"
    using active_ratings_mset [OF assms] by (rule Avg_mset)
  moreover have "length (filter review_is_active (listing_reviews s l))
        = length (filter review_is_active (listing_reviews s' l))"
    using active_ratings_mset [OF assms, of l] by (metis length_map size_mset)
  ultimately show ?thesis
    by (simp add: rating_summary_def average_rating_def review_count_def)
qed

text \<open>The five reviews of the store in two orders of creation.\<close>

theorem rating_summary_order_witness:
  "mset (reviews review_store) = mset (reviews review_store_reordered)
   \<and> rating_summary round_half_up2 review_store scenario_listing
     = rating_summary round_half_up2 review_store_reordered scenario_listing"
proof -
  have m: "mset (reviews review_store) = mset (reviews review_store_reordered)"
    by (simp add: review_store_def review_store_reordered_def add.commute add.left_commute)
  from rating_summary_order_invariant [OF m] m show ?thesis by simp
qed

section \<open>Editing a review\<close>





end
